theory Spec2Isabelle
  imports Main "HOL-Library.Signed_Division"
begin

section \<open>SRS data client: the peer directory and the control connection\<close>

text \<open>
  The data client of \<^verbatim>\<open>package data\<close> keeps a directory of the peers that share a
  coalition and a frequency with this client, and talks to the server over one TCP
  connection that carries one JSON message per line. The definitions below follow the Go
  source function by function: a method of \<^verbatim>\<open>*dataClient\<close> takes the client and returns
  it updated, and an \<^verbatim>\<open>error\<close> result is an \<open>error option\<close> (\<open>None\<close> for \<^verbatim>\<open>nil\<close>).
\<close>

subsection \<open>Values of package types\<close>

type_synonym GUID = string

text \<open>
  Modelled from the spec: the declarations of package \<^verbatim>\<open>types\<close> (\<^verbatim>\<open>Coalition\<close>,
  \<^verbatim>\<open>Radio\<close>, \<^verbatim>\<open>RadioInfo\<close>, \<^verbatim>\<open>ClientInfo\<close>, \<^verbatim>\<open>Message\<close>, \<^verbatim>\<open>MessageType\<close>,
  \<^verbatim>\<open>ClientConfiguration\<close>) are not among the sources, so the types follow section 3 of
  the specification and the field names the data client uses. A coalition is one of
  spectator, red and blue.
\<close>

datatype Coalition = CoalitionSpectator | CoalitionRed | CoalitionBlue

text \<open>
  Modelled from the spec: \<^verbatim>\<open>types.IsSpectator\<close> is missing; the spectator coalition is
  the one that is compatible with every coalition.
\<close>

definition IsSpectator :: "Coalition \<Rightarrow> bool" where
  "IsSpectator c = (c = CoalitionSpectator)"

text \<open>
  Modelled from the spec: a radio is a frequency in Hz (integer valued), a modulation, an
  encryption flag with its key index, and the guard-channel flag.
\<close>

record Radio =
  Frequency :: int
  Modulation :: nat
  IsEncrypted :: bool
  EncryptionKey :: nat
  ShouldRetransmit :: bool

record RadioInfo =
  UnitID :: nat
  Unit :: string
  Radios :: "Radio list"

record ClientInfo =
  GUID :: GUID
  Name :: string
  Coalition :: Coalition
  RadioInfo :: RadioInfo

text \<open>
  The IFF, ambient-noise and position parts of a client are built by constructors that are
  not among the sources; no function of the data client reads them, and they are left out.
\<close>

text \<open>
  Modelled from the spec: \<^verbatim>\<open>Radio\<close> matching and \<^verbatim>\<open>RadioInfo.IsOnFrequency\<close> are missing.
  Two radios match when both are tuned (above 8 MHz) and agree on frequency, modulation
  and encryption state and key; two radio sets are on frequency when some pair matches.
\<close>

definition IsSameFrequency :: "Radio \<Rightarrow> Radio \<Rightarrow> bool" where
  "IsSameFrequency r1 r2 =
     (8000000 < Frequency r1 \<and> 8000000 < Frequency r2 \<and>
      Frequency r1 = Frequency r2 \<and> Modulation r1 = Modulation r2 \<and>
      IsEncrypted r1 = IsEncrypted r2 \<and> EncryptionKey r1 = EncryptionKey r2)"

definition IsOnFrequency :: "RadioInfo \<Rightarrow> RadioInfo \<Rightarrow> bool" where
  "IsOnFrequency i other =
     list_ex (\<lambda>r. list_ex (\<lambda>r'. IsSameFrequency r r') (Radios other)) (Radios i)"

text \<open>
  Modelled from the spec: the message types of section 3. A type number the client does
  not know decodes to some other value, which \<open>MessageUnknown\<close> stands for.
\<close>

datatype MessageType =
    MessageUpdate
  | MessagePing
  | MessageSync
  | MessageRadioUpdate
  | MessageServerSettings
  | MessageClientDisconnect
  | MessageVersionMismatch
  | MessageExternalAWACSModePassword
  | MessageExternalAWACSModeDisconnect
  | MessageUnknown nat

text \<open>
  The client of a message is a value, not a pointer: a message without one carries the
  zero \<^verbatim>\<open>ClientInfo\<close>.
\<close>

record Message =
  Version :: string
  Type :: MessageType
  Client :: ClientInfo
  Clients :: "ClientInfo list"
  ExternalAWACSModePassword :: string

record ClientConfiguration =
  Address :: string
  ClientName :: string
  ConfigPassword :: string
  ConfigCoalition :: Coalition
  ConfigRadios :: "Radio list"
  Mute :: bool

definition zeroRadioInfo :: RadioInfo where
  "zeroRadioInfo = \<lparr>UnitID = 0, Unit = [], Radios = []\<rparr>"

definition zeroClientInfo :: ClientInfo where
  "zeroClientInfo =
     \<lparr>GUID = [], Name = [], Coalition = CoalitionSpectator, RadioInfo = zeroRadioInfo\<rparr>"

subsection \<open>Errors and the connection\<close>

text \<open>
  A Go error is its message; \<^verbatim>\<open>fmt.Errorf("...: %w", err)\<close> wraps an error in a longer
  message.
\<close>

datatype error = Err string | Wrap string error

text \<open>
  What the process does to the outside, oldest action first: it starts the reader
  goroutine, closes the ready channel, calls \<^verbatim>\<open>Write\<close> on the connection with a buffer
  (the flag says whether the call succeeded) and closes the connection.
\<close>

datatype action = GoReader | CloseReady | ConnWrite string bool | ConnClose

text \<open>
  The fields of \<^verbatim>\<open>dataClient\<close>. The TCP connection is the environment's: \<open>connection\<close>
  holds, for each coming call of \<^verbatim>\<open>Write\<close>, the error the network will answer with
  (\<open>None\<close> for a write that succeeds; the calls after the list is used up succeed), and
  \<open>history\<close> records the actions so far. \<open>lastReceived\<close> is a time in nanoseconds.
\<close>

record dataClient =
  connection :: "error option list"
  clientInfo :: ClientInfo
  externalAWACSModePassword :: string
  clients :: "GUID \<rightharpoonup> ClientInfo"
  lastReceived :: int
  history :: "action list"

text \<open>
  \<^verbatim>\<open>NewClient\<close>, after the address is resolved and dialed (the connection is its result):
  the client's own \<^verbatim>\<open>ClientInfo\<close> from the configuration and an empty directory.
\<close>

definition NewClient :: "GUID \<Rightarrow> ClientConfiguration \<Rightarrow> error option list \<Rightarrow> dataClient" where
  "NewClient guid config conn =
     \<lparr>connection = conn,
      clientInfo =
        \<lparr>GUID = guid, Name = ClientName config, Coalition = ConfigCoalition config,
         RadioInfo =
           \<lparr>UnitID = 100000002, Unit = ''External AWACS'', Radios = ConfigRadios config\<rparr>\<rparr>,
      externalAWACSModePassword = ConfigPassword config,
      clients = Map.empty,
      lastReceived = 0,
      history = []\<rparr>"

text \<open>\<^verbatim>\<open>c.connection.Write(b)\<close>: one call, answered by the network.\<close>

definition Write :: "string \<Rightarrow> dataClient \<Rightarrow> dataClient \<times> error option" where
  "Write b c =
     (case connection c of
        [] \<Rightarrow> (c\<lparr>history := history c @ [ConnWrite b True]\<rparr>, None)
      | r # rs \<Rightarrow>
          (c\<lparr>connection := rs, history := history c @ [ConnWrite b (r = None)]\<rparr>, r))"

definition close :: "dataClient \<Rightarrow> dataClient" where
  "close c = c\<lparr>history := history c @ [ConnClose]\<rparr>"

subsection \<open>The directory\<close>

text \<open>
  \<^verbatim>\<open>syncClient\<close>: the two early returns, then the coalition and frequency tests, then
  the store or the delete under the lock. The list of frequencies it builds is only
  logged.
\<close>

definition syncClient :: "dataClient \<Rightarrow> ClientInfo \<Rightarrow> dataClient" where
  "syncClient c other =
     (if GUID other = GUID (clientInfo c) then c
      else if length (Radios (RadioInfo other)) = 0 then c
      else
        let isSameCoalition =
              (Coalition (clientInfo c) = Coalition other \<or> IsSpectator (Coalition other));
            isOnFrequency = IsOnFrequency (RadioInfo (clientInfo c)) (RadioInfo other)
        in if isSameCoalition \<and> isOnFrequency
           then c\<lparr>clients := (clients c)(GUID other \<mapsto> other)\<rparr>
           else c\<lparr>clients := (clients c)(GUID other := None)\<rparr>)"

text \<open>\<^verbatim>\<open>syncClients\<close>: \<^verbatim>\<open>syncClient\<close> for each client of the slice, in order.\<close>

fun syncClients :: "dataClient \<Rightarrow> ClientInfo list \<Rightarrow> dataClient" where
  "syncClients c [] = c"
| "syncClients c (info # others) = syncClients (syncClient c info) others"

definition removeClient :: "dataClient \<Rightarrow> ClientInfo \<Rightarrow> dataClient" where
  "removeClient c info = c\<lparr>clients := (clients c)(GUID info := None)\<rparr>"

subsection \<open>Sending\<close>

text \<open>
  \<^verbatim>\<open>Send\<close>. \<^verbatim>\<open>json.Marshal\<close> and the JSON tags of \<^verbatim>\<open>types.Message\<close> are outside the
  sources, so the serialisation is the parameter \<open>marshal\<close>, which may fail.
\<close>

definition newline :: char where
  "newline = CHR 0x0A"

definition Send :: "(Message \<Rightarrow> error + string) \<Rightarrow> dataClient \<Rightarrow> Message \<Rightarrow> dataClient \<times> error option" where
  "Send marshal c message =
     (if Version message = [] then (c, Some (Err ''message Version is required''))
      else
        case marshal message of
          Inl err \<Rightarrow> (c, Some (Wrap ''failed to marshal message to JSON'' err))
        | Inr b \<Rightarrow>
            (case Write (b @ [newline]) c of
               (c', Some err) \<Rightarrow> (c', Some (Wrap ''failed to write message'' err))
             | (c', None) \<Rightarrow> (c', None)))"

definition newMessage :: "dataClient \<Rightarrow> MessageType \<Rightarrow> Message" where
  "newMessage c t =
     \<lparr>Version = ''2.1.0.2'', Type = t, Client = zeroClientInfo, Clients = [],
      ExternalAWACSModePassword = []\<rparr>"

definition newMessageWithClient :: "dataClient \<Rightarrow> MessageType \<Rightarrow> Message" where
  "newMessageWithClient c t = (newMessage c t)\<lparr>Client := clientInfo c\<rparr>"

definition sync :: "(Message \<Rightarrow> error + string) \<Rightarrow> dataClient \<Rightarrow> dataClient \<times> error option" where
  "sync marshal c =
     (case Send marshal c (newMessageWithClient c MessageSync) of
        (c', Some err) \<Rightarrow> (c', Some (Wrap ''sync failed'' err))
      | (c', None) \<Rightarrow> (c', None))"

definition updateRadios :: "(Message \<Rightarrow> error + string) \<Rightarrow> dataClient \<Rightarrow> dataClient \<times> error option" where
  "updateRadios marshal c =
     (case Send marshal c (newMessageWithClient c MessageRadioUpdate) of
        (c', Some err) \<Rightarrow> (c', Some (Wrap ''radio update failed'' err))
      | (c', None) \<Rightarrow> (c', None))"

definition connectExternalAWACSMode :: "(Message \<Rightarrow> error + string) \<Rightarrow> dataClient \<Rightarrow> dataClient \<times> error option" where
  "connectExternalAWACSMode marshal c =
     (let message = (newMessageWithClient c MessageExternalAWACSModePassword)
            \<lparr>ExternalAWACSModePassword := externalAWACSModePassword c\<rparr>
      in case Send marshal c message of
           (c', Some err) \<Rightarrow> (c', Some (Wrap ''failed to authenticate with EAM password'' err))
         | (c', None) \<Rightarrow> (c', None))"

subsection \<open>Routing and the run loop\<close>

text \<open>
  \<^verbatim>\<open>handleMessage\<close>, one equation per case of the switch. A failed radio update is
  logged and not returned.
\<close>

definition handleMessage :: "(Message \<Rightarrow> error + string) \<Rightarrow> dataClient \<Rightarrow> Message \<Rightarrow> dataClient" where
  "handleMessage marshal c message =
     (case Type message of
        MessagePing \<Rightarrow> c
      | MessageServerSettings \<Rightarrow> c
      | MessageVersionMismatch \<Rightarrow> c
      | MessageExternalAWACSModeDisconnect \<Rightarrow> c
      | MessageSync \<Rightarrow> syncClients c (Clients message)
      | MessageUpdate \<Rightarrow> syncClient c (Client message)
      | MessageRadioUpdate \<Rightarrow> syncClient c (Client message)
      | MessageClientDisconnect \<Rightarrow> removeClient c (Client message)
      | MessageExternalAWACSModePassword \<Rightarrow>
          (if Coalition (Client message) = Coalition (clientInfo c)
           then fst (updateRadios marshal c) else c)
      | MessageUnknown n \<Rightarrow> c)"

text \<open>
  What a \<^verbatim>\<open>select\<close> of \<^verbatim>\<open>Run\<close> receives: a message from the reader goroutine (with
  the time of its arrival), the cancellation of the context, or a read error. \<^verbatim>\<open>Run\<close>
  is given the receptions of its whole life as a list; when the list is used up the
  \<^verbatim>\<open>select\<close> blocks for ever and \<^verbatim>\<open>Run\<close> does not return (\<open>None\<close>).
\<close>

datatype selected = Received int Message | CtxDone | ReadError error

text \<open>
  After the cancellation \<^verbatim>\<open>Run\<close> waits for one more message or error of the reader
  before it returns \<^verbatim>\<open>nil\<close>.
\<close>

fun drain :: "dataClient \<Rightarrow> selected list \<Rightarrow> (dataClient \<times> error option) option" where
  "drain c [] = None"
| "drain c (CtxDone # rest) = drain c rest"
| "drain c (Received t m # rest) = Some (c, None)"
| "drain c (ReadError e # rest) = Some (c, None)"

fun receiveLoop :: "(Message \<Rightarrow> error + string) \<Rightarrow> dataClient \<Rightarrow> selected list \<Rightarrow> (dataClient \<times> error option) option" where
  "receiveLoop marshal c [] = None"
| "receiveLoop marshal c (Received t m # rest) =
     receiveLoop marshal (handleMessage marshal (c\<lparr>lastReceived := t\<rparr>) m) rest"
| "receiveLoop marshal c (CtxDone # rest) = drain c rest"
| "receiveLoop marshal c (ReadError e # rest) = Some (c, Some (Wrap ''data client error'' e))"

text \<open>
  The part of \<^verbatim>\<open>Run\<close> before its loop: the reader goroutine is started, the ready channel
  is closed, then the sync message and the password message are sent.
\<close>

definition handshake :: "(Message \<Rightarrow> error + string) \<Rightarrow> dataClient \<Rightarrow> dataClient \<times> error option" where
  "handshake marshal c =
     (let c0 = c\<lparr>history := history c @ [GoReader]\<rparr>;
          c1 = c0\<lparr>history := history c0 @ [CloseReady]\<rparr>
      in case sync marshal c1 of
           (c2, Some err) \<Rightarrow> (c2, Some (Wrap ''initial sync failed'' err))
         | (c2, None) \<Rightarrow>
             (case connectExternalAWACSMode marshal c2 of
                (c3, Some err) \<Rightarrow> (c3, Some (Wrap ''external AWACS mode failed'' err))
              | (c3, None) \<Rightarrow> (c3, None)))"

text \<open>\<^verbatim>\<open>Run\<close>; the deferred \<^verbatim>\<open>close\<close> runs on every return.\<close>

definition Run :: "(Message \<Rightarrow> error + string) \<Rightarrow> dataClient \<Rightarrow> selected list \<Rightarrow> (dataClient \<times> error option) option" where
  "Run marshal c sel =
     (case handshake marshal c of
        (c', Some err) \<Rightarrow> Some (close c', Some err)
      | (c', None) \<Rightarrow>
          (case receiveLoop marshal c' sel of
             None \<Rightarrow> None
           | Some (c'', r) \<Rightarrow> Some (close c'', r)))"

section \<open>SRS audio client: the transmitter\<close>

text \<open>
  The transmitter of \<^verbatim>\<open>package audio\<close> (\<^verbatim>\<open>transmit.go\<close>) sends each batch of voice
  packets under the \<^verbatim>\<open>busy\<close> lock, after waiting for a clear channel, and paces the
  packets of a batch by the frame length. Times are instants and durations in
  nanoseconds, as \<^verbatim>\<open>time.Time\<close> and \<^verbatim>\<open>time.Duration\<close> count them; they are unbounded
  integers here, since the 64-bit range (292 years) is out of reach of the sums below.
\<close>

definition Millisecond :: int where
  "Millisecond = 1000000"

text \<open>
  Modelled from the spec: the type \<^verbatim>\<open>receiver\<close> and its method
  \<^verbatim>\<open>isReceivingTransmission\<close> are in a file that is not among the sources. A receiver
  holds the origin and the packet number of the transmission it hears and the deadline of
  that transmission; it is receiving exactly when the deadline is in the future. The
  method reads the clock; here the instant is its first argument.
\<close>

record receiver =
  origin :: GUID
  packetID :: nat
  deadline :: int

definition isReceivingTransmission :: "int \<Rightarrow> receiver \<Rightarrow> bool" where
  "isReceivingTransmission now r = (now < deadline r)"

text \<open>
  The fields of \<^verbatim>\<open>audioClient\<close> that the transmitter reads and never writes. The
  time of the last ping is in nanoseconds.
\<close>

record audioClient =
  guid :: GUID
  radios :: "Radio list"
  packetNumber :: nat
  mute :: bool
  lastPing :: int

text \<open>
  What the transmitter does to the outside, oldest first: it locks and unlocks \<^verbatim>\<open>busy\<close>,
  calls \<^verbatim>\<open>time.Sleep\<close> (at an instant, for a duration), calls \<^verbatim>\<open>Write\<close> on the UDP
  connection (at an instant, with a datagram; the flag says whether the call succeeded)
  and logs a failed write.
\<close>

datatype audioEvent =
    BusyLock
  | BusyUnlock
  | Slept int int
  | UDPWrite int string bool
  | WriteErrorLogged

text \<open>
  Everything around the transmitter goroutine is its environment: the clock; the time
  that each of its statements takes beyond what it asks for (\<open>ticks\<close>, one natural
  number of nanoseconds for each statement that takes time, none left meaning no time at
  all); the receivers of \<^verbatim>\<open>c.receivers\<close>, which the receiving goroutine updates while
  the transmitter runs, given as the receivers found at each instant; the UDP connection,
  given as the errors that the coming calls of \<^verbatim>\<open>Write\<close> will return; and the events so
  far.
\<close>

record world =
  clock :: int
  ticks :: "nat list"
  receivers :: "int \<Rightarrow> receiver list"
  udp :: "error option list"
  trace :: "audioEvent list"

text \<open>A statement has run: the clock moves on by the next tick.\<close>

definition pass :: "world \<Rightarrow> world" where
  "pass w =
     (case ticks w of
        [] \<Rightarrow> w
      | t # ts \<Rightarrow> w\<lparr>clock := clock w + int t, ticks := ts\<rparr>)"

text \<open>
  \<^verbatim>\<open>time.Sleep(d)\<close> pauses for at least \<open>d\<close>, and returns at once when \<open>d\<close> is zero
  or negative.
\<close>

definition Sleep :: "int \<Rightarrow> world \<Rightarrow> world" where
  "Sleep d w =
     pass (w\<lparr>clock := clock w + (if 0 < d then d else 0), trace := trace w @ [Slept (clock w) d]\<rparr>)"

text \<open>\<^verbatim>\<open>c.connection.Write(b)\<close> on the UDP connection.\<close>

definition WriteUDP :: "string \<Rightarrow> world \<Rightarrow> world \<times> error option" where
  "WriteUDP b w =
     (case udp w of
        [] \<Rightarrow> (pass (w\<lparr>trace := trace w @ [UDPWrite (clock w) b True]\<rparr>), None)
      | r # rs \<Rightarrow>
          (pass (w\<lparr>udp := rs, trace := trace w @ [UDPWrite (clock w) b (r = None)]\<rparr>), r))"

subsection \<open>Waiting for a clear channel\<close>

text \<open>
  The inner loop of \<^verbatim>\<open>waitForClearChannel\<close> over the receivers: whether one of them is
  receiving, and the latest deadline among those, starting from the present instant.
\<close>

definition scanReceivers :: "int \<Rightarrow> receiver list \<Rightarrow> bool \<times> int" where
  "scanReceivers now rs =
     fold (\<lambda>r (isReceiving, dl).
             if isReceivingTransmission now r
             then (True, if dl < deadline r then deadline r else dl)
             else (isReceiving, dl))
       rs (False, now)"

text \<open>
  \<^verbatim>\<open>waitForClearChannel\<close>: while a receiver is receiving, sleep until the latest deadline
  plus 250 ms and look again. One look reads the clock and the receivers at one instant.
  The loop has no bound (a peer may keep transmitting), so the function is partial:
  \<open>None\<close> is the loop that never ends.
\<close>

partial_function (option) waitForClearChannel :: "world \<Rightarrow> world option" where
  "waitForClearChannel w =
     (let (isReceiving, dl) = scanReceivers (clock w) (receivers w (clock w))
      in if isReceiving
         then waitForClearChannel (Sleep (dl - clock w + 250 * Millisecond) w)
         else Some w)"

declare waitForClearChannel.simps [code]

subsection \<open>Writing a batch\<close>

text \<open>
  The loop of \<^verbatim>\<open>writePackets\<close> from packet \<open>i\<close> on. The encoding of a voice packet and
  the constant \<^verbatim>\<open>frameLength\<close> are declared outside the sources and are the parameters
  \<open>encode\<close> and \<open>frameLength\<close>. In Go \<^verbatim>\<open>-frameLength / 2\<close> negates first and the
  division truncates towards zero, which is \<open>sdiv\<close>. A failed write is logged and the
  loop goes on.
\<close>

fun writeLoop :: "('p \<Rightarrow> string) \<Rightarrow> int \<Rightarrow> int \<Rightarrow> nat \<Rightarrow> 'p list \<Rightarrow> world \<Rightarrow> world" where
  "writeLoop encode frameLength startTime i [] w = w"
| "writeLoop encode frameLength startTime i (vp # vps) w =
     (let b = encode vp;
          w0 = pass w;
          delay = (startTime + int i * frameLength + (- frameLength) sdiv 2) - clock w0;
          w1 = Sleep delay w0;
          (w2, err) = WriteUDP b w1;
          w3 = (case err of
                  Some e \<Rightarrow> w2\<lparr>trace := trace w2 @ [WriteErrorLogged]\<rparr>
                | None \<Rightarrow> w2)
      in writeLoop encode frameLength startTime (Suc i) vps w3)"

definition writePackets :: "('p \<Rightarrow> string) \<Rightarrow> int \<Rightarrow> 'p list \<Rightarrow> world \<Rightarrow> world" where
  "writePackets encode frameLength packets w =
     (let startTime = clock w in writeLoop encode frameLength startTime 0 packets w)"

text \<open>
  \<^verbatim>\<open>tx\<close>: lock, wait, write unless muted, unlock (deferred). Only the transmitter
  goroutine calls it, so the lock is free when it is taken.
\<close>

definition tx :: "('p \<Rightarrow> string) \<Rightarrow> int \<Rightarrow> audioClient \<Rightarrow> 'p list \<Rightarrow> world \<Rightarrow> world option" where
  "tx encode frameLength c packets w =
     (case waitForClearChannel (w\<lparr>trace := trace w @ [BusyLock]\<rparr>) of
        None \<Rightarrow> None
      | Some w1 \<Rightarrow>
          (let w2 = (if \<not> mute c then writePackets encode frameLength packets w1 else w1)
           in Some (w2\<lparr>trace := trace w2 @ [BusyUnlock]\<rparr>)))"

text \<open>
  What the \<^verbatim>\<open>select\<close> of \<^verbatim>\<open>transmit\<close> receives: a batch of packets (with the number
  that \<^verbatim>\<open>rand.IntN(500)\<close> then draws for the pause), or the cancellation of the context.
  When the list is used up the \<^verbatim>\<open>select\<close> blocks for ever.
\<close>

datatype 'p txSelected = PacketBatch "'p list" nat | ContextDone

fun transmit :: "('p \<Rightarrow> string) \<Rightarrow> int \<Rightarrow> audioClient \<Rightarrow> 'p txSelected list \<Rightarrow> world \<Rightarrow> world option" where
  "transmit encode frameLength c [] w = None"
| "transmit encode frameLength c (ContextDone # rest) w = Some w"
| "transmit encode frameLength c (PacketBatch packets n # rest) w =
     (case tx encode frameLength c packets w of
        None \<Rightarrow> None
      | Some w1 \<Rightarrow>
          transmit encode frameLength c rest (Sleep ((500 + int (n mod 500)) * Millisecond) w1))"

text \<open>
  \<^verbatim>\<open>Run\<close> of the audio client starts the goroutines, waits for the cancellation of the
  context and returns \<^verbatim>\<open>nil\<close>. Of the goroutines the transmitter is the one followed
  here. The result is what the transmitter leaves behind (\<open>None\<close> when it never comes
  back) and what \<^verbatim>\<open>Run\<close> returns (\<open>None\<close> when it never returns, \<open>Some None\<close> for
  \<^verbatim>\<open>nil\<close>); the context is cancelled when the cancellation is among the receptions.
\<close>

definition Run_audio :: "('p \<Rightarrow> string) \<Rightarrow> int \<Rightarrow> audioClient \<Rightarrow> 'p txSelected list \<Rightarrow> world \<Rightarrow> world option \<times> error option option" where
  "Run_audio encode frameLength c sel w =
     (transmit encode frameLength c sel w,
      if ContextDone \<in> set sel then Some None else None)"

(*AUDIO-DEFS*)

section \<open>Example values\<close>

text \<open>
  The scenario of the specification's section 8: this client is blue and tuned to
  251.0 MHz AM; peers are built with \<open>examplePeer\<close>.
\<close>

definition exampleRadio :: "int \<Rightarrow> Radio" where
  "exampleRadio f =
     \<lparr>Frequency = f, Modulation = 0, IsEncrypted = False, EncryptionKey = 0,
      ShouldRetransmit = False\<rparr>"

definition examplePeer :: "GUID \<Rightarrow> string \<Rightarrow> Coalition \<Rightarrow> Radio list \<Rightarrow> ClientInfo" where
  "examplePeer g n co rs =
     \<lparr>GUID = g, Name = n, Coalition = co,
      RadioInfo = \<lparr>UnitID = 1, Unit = ''F-16C'', Radios = rs\<rparr>\<rparr>"

definition exampleConfig :: ClientConfiguration where
  "exampleConfig =
     \<lparr>Address = ''localhost:5002'', ClientName = ''SkyEye'', ConfigPassword = ''secret'',
      ConfigCoalition = CoalitionBlue, ConfigRadios = [exampleRadio 251000000], Mute = False\<rparr>"

definition exampleClient :: dataClient where
  "exampleClient = NewClient ''self'' exampleConfig []"

text \<open>
  A serialisation that writes the version, the client's GUID and the password between
  braces, and one that always fails, as \<^verbatim>\<open>json.Marshal\<close> does on a value it cannot encode.
\<close>

definition exampleMarshal :: "Message \<Rightarrow> error + string" where
  "exampleMarshal m = Inr (''{'' @ Version m @ '','' @ GUID (Client m) @ '','' @ ExternalAWACSModePassword m @ ''}'')"

definition failingMarshal :: "Message \<Rightarrow> error + string" where
  "failingMarshal m = Inl (Err ''json: unsupported value: NaN'')"

text \<open>The directory has no entry under the client's own GUID.\<close>

definition noSelf :: "dataClient \<Rightarrow> bool" where
  "noSelf c = (clients c (GUID (clientInfo c)) = None)"

text \<open>Messages of the server: a sync that lists this client and a peer, and an update.\<close>

definition exampleSync :: Message where
  "exampleSync = \<lparr>Version = ''2.1.0.2'', Type = MessageSync, Client = zeroClientInfo,
     Clients = [examplePeer ''self'' ''SkyEye'' CoalitionBlue [exampleRadio 251000000],
                examplePeer ''A'' ''Viper'' CoalitionBlue [exampleRadio 251000000]],
     ExternalAWACSModePassword = []\<rparr>"

definition exampleUpdate :: "ClientInfo \<Rightarrow> Message" where
  "exampleUpdate p = \<lparr>Version = ''2.1.0.2'', Type = MessageUpdate, Client = p, Clients = [], ExternalAWACSModePassword = []\<rparr>"

text \<open>The same client on a connection whose first write fails.\<close>

definition brokenClient :: dataClient where
  "brokenClient = NewClient ''self'' exampleConfig [Some (Err ''broken pipe'')]"

text \<open>The peer of the join scenario, and this client after the peer has joined.\<close>

definition exampleViper :: ClientInfo where
  "exampleViper = examplePeer ''A'' ''Viper'' CoalitionBlue [exampleRadio 251000000]"

definition exampleJoined :: dataClient where
  "exampleJoined = syncClient exampleClient exampleViper"

(*END-DEFS*)

section \<open>Properties of the data client\<close>

subsection \<open>What the directory operations leave alone\<close>

lemma syncClient_clientInfo [simp]: "clientInfo (syncClient c other) = clientInfo c"
  by (simp add: syncClient_def Let_def)

lemma syncClients_clientInfo [simp]: "clientInfo (syncClients c others) = clientInfo c"
  by (induction others arbitrary: c) simp_all

lemma exampleClient_self:
  "GUID (clientInfo exampleClient) = ''self''"
  "Coalition (clientInfo exampleClient) = CoalitionBlue"
  by (simp_all add: exampleClient_def NewClient_def exampleConfig_def)

lemma examplePeer_fields:
  "GUID (examplePeer g n co rs) = g"
  "Coalition (examplePeer g n co rs) = co"
  "Radios (RadioInfo (examplePeer g n co rs)) = rs"
  by (simp_all add: examplePeer_def)

lemma examplePeer_on_251:
  "IsOnFrequency (RadioInfo (clientInfo exampleClient))
     (RadioInfo (examplePeer g n co [exampleRadio 251000000]))"
  by (simp add: IsOnFrequency_def IsSameFrequency_def exampleClient_def NewClient_def
      exampleConfig_def examplePeer_def exampleRadio_def)

lemma examplePeer_off_243:
  "\<not> IsOnFrequency (RadioInfo (clientInfo exampleClient))
     (RadioInfo (examplePeer g n co [exampleRadio 243000000]))"
  by (simp add: IsOnFrequency_def IsSameFrequency_def exampleClient_def NewClient_def
      exampleConfig_def examplePeer_def exampleRadio_def)

subsection \<open>The single-peer rule\<close>

text \<open>
  C1. \<^verbatim>\<open>syncClient\<close> ignores a client whose GUID is this client's own or whose radios
  are empty: the data client is unchanged. Otherwise, when the peer's coalition is this
  client's or the peer is a spectator, and the peer's radios are on frequency with this
  client's, the directory entry of the peer's GUID becomes that \<^verbatim>\<open>ClientInfo\<close>; in
  every other case the entry of the peer's GUID is deleted. Nothing else of the data
  client changes.
\<close>

theorem syncClient_rule:
  "(GUID other = GUID (clientInfo c) \<or> Radios (RadioInfo other) = [] \<longrightarrow>
      syncClient c other = c) \<and>
   (GUID other \<noteq> GUID (clientInfo c) \<and> Radios (RadioInfo other) \<noteq> [] \<and>
    (Coalition other = Coalition (clientInfo c) \<or> IsSpectator (Coalition other)) \<and>
    IsOnFrequency (RadioInfo (clientInfo c)) (RadioInfo other) \<longrightarrow>
      syncClient c other = c\<lparr>clients := (clients c)(GUID other \<mapsto> other)\<rparr>) \<and>
   (GUID other \<noteq> GUID (clientInfo c) \<and> Radios (RadioInfo other) \<noteq> [] \<and>
    \<not> ((Coalition other = Coalition (clientInfo c) \<or> IsSpectator (Coalition other)) \<and>
       IsOnFrequency (RadioInfo (clientInfo c)) (RadioInfo other)) \<longrightarrow>
      syncClient c other = c\<lparr>clients := (clients c)(GUID other := None)\<rparr>)"
  by (auto simp: syncClient_def Let_def)

theorem syncClient_rule_witness:
  "syncClient exampleClient (examplePeer ''self'' ''SkyEye'' CoalitionBlue [exampleRadio 251000000]) =
     exampleClient \<and>
   syncClient exampleClient (examplePeer ''A'' ''Viper'' CoalitionBlue []) = exampleClient \<and>
   syncClient exampleClient (examplePeer ''A'' ''Viper'' CoalitionBlue [exampleRadio 251000000]) =
     exampleClient\<lparr>clients := (clients exampleClient)
       (''A'' \<mapsto> examplePeer ''A'' ''Viper'' CoalitionBlue [exampleRadio 251000000])\<rparr> \<and>
   syncClient exampleClient (examplePeer ''B'' ''Flanker'' CoalitionRed [exampleRadio 251000000]) =
     exampleClient\<lparr>clients := (clients exampleClient)(''B'' := None)\<rparr> \<and>
   syncClient exampleClient (examplePeer ''A'' ''Viper'' CoalitionBlue [exampleRadio 243000000]) =
     exampleClient\<lparr>clients := (clients exampleClient)(''A'' := None)\<rparr>"
  using
    syncClient_rule [of "examplePeer ''self'' ''SkyEye'' CoalitionBlue [exampleRadio 251000000]" exampleClient]
    syncClient_rule [of "examplePeer ''A'' ''Viper'' CoalitionBlue []" exampleClient]
    syncClient_rule [of "examplePeer ''A'' ''Viper'' CoalitionBlue [exampleRadio 251000000]" exampleClient]
    syncClient_rule [of "examplePeer ''B'' ''Flanker'' CoalitionRed [exampleRadio 251000000]" exampleClient]
    syncClient_rule [of "examplePeer ''A'' ''Viper'' CoalitionBlue [exampleRadio 243000000]" exampleClient]
    examplePeer_on_251 [of "''A''" "''Viper''" CoalitionBlue]
    examplePeer_off_243 [of "''A''" "''Viper''" CoalitionBlue]
  by (simp add: exampleClient_self examplePeer_fields IsSpectator_def)

subsection \<open>Fields that sending and routing preserve\<close>

lemma removeClient_clientInfo [simp]: "clientInfo (removeClient c info) = clientInfo c"
  by (simp add: removeClient_def)

lemma Write_fields [simp]:
  "clientInfo (fst (Write b c)) = clientInfo c"
  "clients (fst (Write b c)) = clients c"
  "externalAWACSModePassword (fst (Write b c)) = externalAWACSModePassword c"
  by (simp_all add: Write_def split: list.splits)

lemma Send_fst:
  "fst (Send marshal c m) =
     (if Version m = [] then c
      else case marshal m of Inl err \<Rightarrow> c | Inr b \<Rightarrow> fst (Write (b @ [newline]) c))"
  by (simp add: Send_def split_beta split: sum.splits option.splits)

lemma Send_snd:
  "snd (Send marshal c m) =
     (if Version m = [] then Some (Err ''message Version is required'')
      else case marshal m of
             Inl err \<Rightarrow> Some (Wrap ''failed to marshal message to JSON'' err)
           | Inr b \<Rightarrow> map_option (Wrap ''failed to write message'') (snd (Write (b @ [newline]) c)))"
  by (simp add: Send_def split_beta split: sum.splits option.splits)

lemma Send_fields [simp]:
  "clientInfo (fst (Send marshal c m)) = clientInfo c"
  "clients (fst (Send marshal c m)) = clients c"
  "externalAWACSModePassword (fst (Send marshal c m)) = externalAWACSModePassword c"
  by (simp_all add: Send_fst split: sum.splits)

lemma sync_fst: "fst (sync marshal c) = fst (Send marshal c (newMessageWithClient c MessageSync))"
  by (simp add: sync_def split_beta split: option.splits)

lemma sync_snd:
  "snd (sync marshal c) =
     map_option (Wrap ''sync failed'') (snd (Send marshal c (newMessageWithClient c MessageSync)))"
  by (simp add: sync_def split_beta split: option.splits)

lemma updateRadios_fst:
  "fst (updateRadios marshal c) = fst (Send marshal c (newMessageWithClient c MessageRadioUpdate))"
  by (simp add: updateRadios_def split_beta split: option.splits)

lemma connectExternalAWACSMode_fst:
  "fst (connectExternalAWACSMode marshal c) =
     fst (Send marshal c ((newMessageWithClient c MessageExternalAWACSModePassword)
            \<lparr>ExternalAWACSModePassword := externalAWACSModePassword c\<rparr>))"
  by (simp add: connectExternalAWACSMode_def Let_def split_beta split: option.splits)

lemma connectExternalAWACSMode_snd:
  "snd (connectExternalAWACSMode marshal c) =
     map_option (Wrap ''failed to authenticate with EAM password'')
       (snd (Send marshal c ((newMessageWithClient c MessageExternalAWACSModePassword)
            \<lparr>ExternalAWACSModePassword := externalAWACSModePassword c\<rparr>)))"
  by (simp add: connectExternalAWACSMode_def Let_def split_beta split: option.splits)

lemma updateRadios_fields [simp]:
  "clientInfo (fst (updateRadios marshal c)) = clientInfo c"
  "clients (fst (updateRadios marshal c)) = clients c"
  by (simp_all add: updateRadios_fst)

lemma handleMessage_clientInfo [simp]: "clientInfo (handleMessage marshal c m) = clientInfo c"
  by (simp add: handleMessage_def split: MessageType.splits)

lemma syncClient_noSelf: "noSelf c \<Longrightarrow> noSelf (syncClient c other)"
  by (simp add: noSelf_def syncClient_def Let_def)

lemma syncClients_noSelf: "noSelf c \<Longrightarrow> noSelf (syncClients c others)"
  by (induction others arbitrary: c) (simp_all add: syncClient_noSelf)

lemma removeClient_noSelf: "noSelf c \<Longrightarrow> noSelf (removeClient c info)"
  by (simp add: noSelf_def removeClient_def)

lemma handleMessage_noSelf: "noSelf c \<Longrightarrow> noSelf (handleMessage marshal c m)"
  by (auto simp: handleMessage_def syncClient_noSelf syncClients_noSelf removeClient_noSelf
      split: MessageType.splits) (simp add: noSelf_def)

lemma foldl_handleMessage_noSelf: "noSelf c \<Longrightarrow> noSelf (foldl (handleMessage marshal) c ms)"
  by (induction ms arbitrary: c) (simp_all add: handleMessage_noSelf)

lemma foldl_handleMessage_clientInfo [simp]: "clientInfo (foldl (handleMessage marshal) c ms) = clientInfo c"
  by (induction ms arbitrary: c) simp_all

lemma NewClient_noSelf: "noSelf (NewClient own config conn)"
  by (simp add: noSelf_def NewClient_def)

lemma drain_same: "drain c sel = Some (c', r) \<Longrightarrow> c' = c"
  by (induction c sel rule: drain.induct) simp_all

lemma receiveLoop_noSelf:
  "noSelf c \<Longrightarrow> receiveLoop marshal c sel = Some (c', r) \<Longrightarrow> noSelf c' \<and> clientInfo c' = clientInfo c"
proof (induction marshal c sel rule: receiveLoop.induct)
  case (2 marshal c t m rest)
  have "noSelf (c\<lparr>lastReceived := t\<rparr>)" using 2(2) by (simp add: noSelf_def)
  then have "noSelf (handleMessage marshal (c\<lparr>lastReceived := t\<rparr>) m)" by (rule handleMessage_noSelf)
  with 2 show ?case by simp
next
  case (3 marshal c rest)
  then show ?case by (auto dest: drain_same)
qed simp_all

lemma handshake_fst:
  "fst (handshake marshal c) =
     (let c1 = c\<lparr>history := history c @ [GoReader, CloseReady]\<rparr>; c2 = fst (sync marshal c1)
      in if snd (sync marshal c1) = None then fst (connectExternalAWACSMode marshal c2) else c2)"
  by (simp add: handshake_def Let_def split_beta split: option.splits)

lemma handshake_snd:
  "snd (handshake marshal c) =
     (let c1 = c\<lparr>history := history c @ [GoReader, CloseReady]\<rparr>; c2 = fst (sync marshal c1)
      in case snd (sync marshal c1) of
           Some err \<Rightarrow> Some (Wrap ''initial sync failed'' err)
         | None \<Rightarrow> map_option (Wrap ''external AWACS mode failed'') (snd (connectExternalAWACSMode marshal c2)))"
  by (simp add: handshake_def Let_def split_beta split: option.splits)

lemma handshake_fields [simp]:
  "clientInfo (fst (handshake marshal c)) = clientInfo c"
  "clients (fst (handshake marshal c)) = clients c"
  by (simp_all add: handshake_fst Let_def sync_fst connectExternalAWACSMode_fst)

lemma Run_noSelf:
  assumes "noSelf c" and "Run marshal c sel = Some (c', r)"
  shows "noSelf c' \<and> clientInfo c' = clientInfo c"
proof (cases "snd (handshake marshal c)")
  case None
  have n: "noSelf (fst (handshake marshal c))" using assms(1) by (simp add: noSelf_def)
  from None assms(2) obtain c'' where l: "receiveLoop marshal (fst (handshake marshal c)) sel = Some (c'', r)"
    and c': "c' = close c''"
    by (auto simp: Run_def split: prod.splits option.splits)
  from receiveLoop_noSelf [OF n l] have "noSelf c''" "clientInfo c'' = clientInfo c" by simp_all
  then show ?thesis by (simp add: c' close_def noSelf_def)
next
  case (Some e)
  with assms(2) have "c' = close (fst (handshake marshal c))"
    by (auto simp: Run_def split: prod.splits option.splits)
  with assms(1) show ?thesis by (simp add: close_def noSelf_def)
qed

lemma drain_returns: "drain c (pre @ ReadError e # rest) \<noteq> None"
  by (induction c pre rule: drain.induct) simp_all

lemma receiveLoop_returns:
  "receiveLoop marshal c (pre @ ReadError e # rest) \<noteq> None"
proof (induction pre arbitrary: c)
  case Nil
  then show ?case by simp
next
  case (Cons s pre)
  then show ?case by (cases s) (simp_all add: drain_returns)
qed

lemma Run_returns: "\<exists>c' r. Run marshal c (pre @ ReadError e # rest) = Some (c', r)"
proof (cases "handshake marshal c")
  case (Pair c1 r1)
  show ?thesis
  proof (cases r1)
    case None
    from receiveLoop_returns [of marshal c1 pre e rest]
    obtain c2 r2 where "receiveLoop marshal c1 (pre @ ReadError e # rest) = Some (c2, r2)" by auto
    with Pair None show ?thesis by (simp add: Run_def)
  next
    case (Some err)
    with Pair show ?thesis by (simp add: Run_def)
  qed
qed

subsection \<open>The directory never lists this client\<close>

text \<open>
  C2. Whatever messages are handled, in any order and with any contents, the directory
  has no entry under the client's own GUID: after every sequence of messages routed by
  \<^verbatim>\<open>handleMessage\<close> from the client that \<^verbatim>\<open>NewClient\<close> builds, and in the client that
  \<^verbatim>\<open>Run\<close> leaves behind whenever it returns.
\<close>

theorem directory_never_holds_self:
  "clients (foldl (handleMessage marshal) (NewClient own config conn) ms) own = None \<and>
   (\<forall>c' r. Run marshal (NewClient own config conn) sel = Some (c', r) \<longrightarrow> clients c' own = None)"
proof -
  have g: "GUID (clientInfo (NewClient own config conn)) = own" by (simp add: NewClient_def)
  have "noSelf (foldl (handleMessage marshal) (NewClient own config conn) ms)"
    by (rule foldl_handleMessage_noSelf [OF NewClient_noSelf])
  then have a: "clients (foldl (handleMessage marshal) (NewClient own config conn) ms) own = None"
    by (simp add: noSelf_def g)
  have b: "clients c' own = None" if "Run marshal (NewClient own config conn) sel = Some (c', r)" for c' r
  proof -
    from Run_noSelf [OF NewClient_noSelf that]
    have "noSelf c'" and "clientInfo c' = clientInfo (NewClient own config conn)" by simp_all
    then have "GUID (clientInfo c') = own" and "clients c' (GUID (clientInfo c')) = None"
      by (simp_all add: g noSelf_def)
    then show ?thesis by simp
  qed
  from a b show ?thesis by blast
qed

theorem directory_never_holds_self_witness:
  "clients (foldl (handleMessage exampleMarshal) (NewClient ''self'' exampleConfig [])
       [exampleSync, exampleUpdate (examplePeer ''self'' ''SkyEye'' CoalitionBlue [exampleRadio 251000000])])
     ''self'' = None \<and>
   (\<exists>c' r. Run exampleMarshal (NewClient ''self'' exampleConfig [])
        [Received 5 exampleSync, ReadError (Err ''connection reset'')] = Some (c', r) \<and>
      clients c' ''self'' = None)"
proof -
  let ?sel = "[Received 5 exampleSync, ReadError (Err ''connection reset'')]"
  from Run_returns [of exampleMarshal "NewClient ''self'' exampleConfig []" "[Received 5 exampleSync]"
      "Err ''connection reset''" "[]"]
  obtain c' r where run: "Run exampleMarshal (NewClient ''self'' exampleConfig []) ?sel = Some (c', r)"
    by auto
  from directory_never_holds_self [of exampleMarshal "''self''" exampleConfig "[]" _ ?sel] run
  show ?thesis by blast
qed

subsection \<open>Entries with no radios\<close>

lemma syncClient_empty_radios: "Radios (RadioInfo other) = [] \<Longrightarrow> syncClient c other = c"
  by (simp add: syncClient_def)

lemma syncClients_append: "syncClients c (xs @ ys) = syncClients (syncClients c xs) ys"
  by (induction xs arbitrary: c) simp_all

text \<open>
  C10. When a GUID is in the directory and an update, a radio update or an entry of a
  sync for that GUID comes with no radios, the data client is left as it is, so the
  directory is unchanged for every GUID and the old entry stays: \<^verbatim>\<open>syncClient\<close> returns
  the client unchanged, an Update or RadioUpdate message with that client is handled
  without any change, and a sync list with the entry acts as the list without it.
\<close>

theorem empty_radios_keep_directory:
  "clients c (GUID other) = Some old \<and> Radios (RadioInfo other) = [] \<longrightarrow>
     syncClient c other = c \<and>
     clients (syncClient c other) (GUID other) = Some old \<and>
     ((Type m = MessageUpdate \<or> Type m = MessageRadioUpdate) \<and> Client m = other \<longrightarrow>
        handleMessage marshal c m = c) \<and>
     syncClients c (before @ other # after) = syncClients c (before @ after) \<and>
     (Type m = MessageSync \<and> Clients m = [other] \<longrightarrow> handleMessage marshal c m = c)"
  by (auto simp: syncClient_empty_radios syncClients_append handleMessage_def)

lemma exampleJoined_A: "clients exampleJoined ''A'' = Some exampleViper"
  using examplePeer_on_251 [of "''A''" "''Viper''" CoalitionBlue]
  by (simp add: exampleJoined_def exampleViper_def syncClient_def Let_def exampleClient_self
      examplePeer_fields)

theorem empty_radios_keep_directory_witness:
  "clients exampleJoined ''A'' = Some exampleViper \<and>
   syncClient exampleJoined (examplePeer ''A'' ''Viper'' CoalitionBlue []) = exampleJoined \<and>
   clients (syncClient exampleJoined (examplePeer ''A'' ''Viper'' CoalitionBlue [])) ''A'' = Some exampleViper \<and>
   handleMessage exampleMarshal exampleJoined (exampleUpdate (examplePeer ''A'' ''Viper'' CoalitionBlue [])) =
     exampleJoined"
  using empty_radios_keep_directory [of exampleJoined "examplePeer ''A'' ''Viper'' CoalitionBlue []"
      exampleViper "exampleUpdate (examplePeer ''A'' ''Viper'' CoalitionBlue [])" exampleMarshal "[]" "[]"]
    exampleJoined_A
  by (simp add: examplePeer_fields exampleUpdate_def)

subsection \<open>Sending a message\<close>

lemma Write_history:
  "history (fst (Write b c)) = history c @ [ConnWrite b (snd (Write b c) = None)]"
  by (simp add: Write_def split: list.splits)

text \<open>
  C6. \<^verbatim>\<open>Send\<close> of a message with an empty version returns an error and leaves the
  client and its connection untouched. Otherwise, when the serialisation fails it returns
  an error and writes nothing; when it yields the bytes \<open>b\<close>, \<^verbatim>\<open>Send\<close> calls
  \<^verbatim>\<open>Write\<close> exactly once, with \<open>b\<close> followed by one newline, and returns \<^verbatim>\<open>nil\<close>
  exactly when that write succeeded.
\<close>

theorem Send_writes_one_line:
  "(Version m = [] \<longrightarrow> fst (Send marshal c m) = c \<and> snd (Send marshal c m) \<noteq> None) \<and>
   (Version m \<noteq> [] \<longrightarrow>
      (\<forall>err. marshal m = Inl err \<longrightarrow> fst (Send marshal c m) = c \<and> snd (Send marshal c m) \<noteq> None) \<and>
      (\<forall>b. marshal m = Inr b \<longrightarrow>
         history (fst (Send marshal c m)) =
           history c @ [ConnWrite (b @ [newline]) (snd (Send marshal c m) = None)]))"
  by (auto simp: Send_fst Send_snd Write_history)

lemma exampleClient_fields:
  "connection exampleClient = []" "history exampleClient = []"
  "connection brokenClient = [Some (Err ''broken pipe'')]" "history brokenClient = []"
  by (simp_all add: exampleClient_def brokenClient_def NewClient_def)

theorem Send_writes_one_line_witness:
  "fst (Send exampleMarshal exampleClient ((exampleUpdate exampleViper)\<lparr>Version := []\<rparr>)) = exampleClient \<and>
   snd (Send exampleMarshal exampleClient ((exampleUpdate exampleViper)\<lparr>Version := []\<rparr>)) \<noteq> None \<and>
   fst (Send failingMarshal exampleClient (exampleUpdate exampleViper)) = exampleClient \<and>
   snd (Send failingMarshal exampleClient (exampleUpdate exampleViper)) \<noteq> None \<and>
   history (fst (Send exampleMarshal exampleClient (exampleUpdate exampleViper))) =
     [ConnWrite (''{2.1.0.2,A,}'' @ [newline]) True] \<and>
   snd (Send exampleMarshal exampleClient (exampleUpdate exampleViper)) = None \<and>
   history (fst (Send exampleMarshal brokenClient (exampleUpdate exampleViper))) =
     [ConnWrite (''{2.1.0.2,A,}'' @ [newline]) False] \<and>
   snd (Send exampleMarshal brokenClient (exampleUpdate exampleViper)) \<noteq> None"
proof -
  have m: "exampleMarshal (exampleUpdate exampleViper) = Inr ''{2.1.0.2,A,}''"
    by (simp add: exampleMarshal_def exampleUpdate_def exampleViper_def examplePeer_def)
  have f: "failingMarshal (exampleUpdate exampleViper) = Inl (Err ''json: unsupported value: NaN'')"
    by (simp add: failingMarshal_def)
  have v: "Version (exampleUpdate exampleViper) \<noteq> []" "Version ((exampleUpdate exampleViper)\<lparr>Version := []\<rparr>) = []"
    by (simp_all add: exampleUpdate_def)
  have ok: "snd (Send exampleMarshal exampleClient (exampleUpdate exampleViper)) = None"
    by (simp add: Send_snd v m Write_def exampleClient_fields)
  have ko: "snd (Send exampleMarshal brokenClient (exampleUpdate exampleViper)) \<noteq> None"
    by (simp add: Send_snd v m Write_def exampleClient_fields)
  show ?thesis
    using Send_writes_one_line [of "(exampleUpdate exampleViper)\<lparr>Version := []\<rparr>" exampleMarshal exampleClient]
      Send_writes_one_line [of "exampleUpdate exampleViper" failingMarshal exampleClient]
      Send_writes_one_line [of "exampleUpdate exampleViper" exampleMarshal exampleClient]
      Send_writes_one_line [of "exampleUpdate exampleViper" exampleMarshal brokenClient]
      m f v ok ko
    by (simp add: exampleClient_fields)
qed

subsection \<open>The start of \<^verbatim>\<open>Run\<close>\<close>

lemma newMessageWithClient_cong:
  "clientInfo c' = clientInfo c \<Longrightarrow> newMessageWithClient c' t = newMessageWithClient c t"
  by (simp add: newMessageWithClient_def newMessage_def)

lemma newMessageWithClient_Version [simp]: "Version (newMessageWithClient c t) \<noteq> []"
  by (simp add: newMessageWithClient_def newMessage_def)

lemma Send_history_cases:
  "history (fst (Send marshal c m)) =
     (if Version m = [] then history c
      else case marshal m of
             Inl err \<Rightarrow> history c
           | Inr b \<Rightarrow> history c @ [ConnWrite (b @ [newline]) (snd (Send marshal c m) = None)])"
  by (simp add: Send_fst Send_snd Write_history split: sum.splits)

lemma Send_ok_marshal:
  "snd (Send marshal c m) = None \<Longrightarrow> \<exists>b. marshal m = Inr b"
  by (auto simp: Send_snd split: if_splits sum.splits)

lemma sync_history:
  "history (fst (sync marshal c)) =
     (case marshal (newMessageWithClient c MessageSync) of
        Inl err \<Rightarrow> history c
      | Inr b \<Rightarrow> history c @ [ConnWrite (b @ [newline]) (snd (sync marshal c) = None)])"
  by (simp add: sync_fst sync_snd Send_history_cases split: sum.splits)

lemma connectExternalAWACSMode_history:
  "history (fst (connectExternalAWACSMode marshal c)) =
     (case marshal ((newMessageWithClient c MessageExternalAWACSModePassword)
              \<lparr>ExternalAWACSModePassword := externalAWACSModePassword c\<rparr>) of
        Inl err \<Rightarrow> history c
      | Inr b \<Rightarrow> history c @ [ConnWrite (b @ [newline]) (snd (connectExternalAWACSMode marshal c) = None)])"
  by (simp add: connectExternalAWACSMode_fst connectExternalAWACSMode_snd Send_history_cases
      split: sum.splits)

lemma sync_ok_marshal: "snd (sync marshal c) = None \<Longrightarrow> \<exists>b. marshal (newMessageWithClient c MessageSync) = Inr b"
  by (auto simp: sync_snd dest: Send_ok_marshal)

lemma connectExternalAWACSMode_ok_marshal:
  "snd (connectExternalAWACSMode marshal c) = None \<Longrightarrow>
     \<exists>b. marshal ((newMessageWithClient c MessageExternalAWACSModePassword)
              \<lparr>ExternalAWACSModePassword := externalAWACSModePassword c\<rparr>) = Inr b"
  by (auto simp: connectExternalAWACSMode_snd dest: Send_ok_marshal)

lemma sync_fields [simp]:
  "clientInfo (fst (sync marshal c)) = clientInfo c"
  "externalAWACSModePassword (fst (sync marshal c)) = externalAWACSModePassword c"
  by (simp_all add: sync_fst)

lemma handshake_history:
  "\<exists>ws. history (fst (handshake marshal c)) = history c @ [GoReader, CloseReady] @ ws \<and>
        (\<forall>a \<in> set ws. \<exists>b ok. a = ConnWrite b ok) \<and>
        (snd (handshake marshal c) = None \<longleftrightarrow>
           (\<exists>bs bp. marshal (newMessageWithClient c MessageSync) = Inr bs \<and>
              marshal ((newMessageWithClient c MessageExternalAWACSModePassword)
                \<lparr>ExternalAWACSModePassword := externalAWACSModePassword c\<rparr>) = Inr bp \<and>
              ws = [ConnWrite (bs @ [newline]) True, ConnWrite (bp @ [newline]) True]))"
proof -
  define c1 where "c1 = c\<lparr>history := history c @ [GoReader, CloseReady]\<rparr>"
  define c2 where "c2 = fst (sync marshal c1)"
  have m1: "newMessageWithClient c1 t = newMessageWithClient c t" for t
    by (rule newMessageWithClient_cong) (simp add: c1_def)
  have m2: "newMessageWithClient c2 t = newMessageWithClient c t" for t
    by (rule newMessageWithClient_cong) (simp add: c2_def c1_def)
  have p2: "externalAWACSModePassword c2 = externalAWACSModePassword c"
    by (simp add: c2_def c1_def)
  have h1: "history c1 = history c @ [GoReader, CloseReady]" by (simp add: c1_def)
  have f: "fst (handshake marshal c) = (if snd (sync marshal c1) = None then fst (connectExternalAWACSMode marshal c2) else c2)"
    by (simp add: handshake_fst Let_def c1_def c2_def)
  have s: "snd (handshake marshal c) = None \<longleftrightarrow> snd (sync marshal c1) = None \<and> snd (connectExternalAWACSMode marshal c2) = None"
    by (simp add: handshake_snd Let_def c1_def c2_def split: option.splits)
  have hs: "history c2 = (case marshal (newMessageWithClient c MessageSync) of
        Inl err \<Rightarrow> history c1
      | Inr b \<Rightarrow> history c1 @ [ConnWrite (b @ [newline]) (snd (sync marshal c1) = None)])"
    unfolding c2_def by (simp add: sync_history m1)
  have hp: "history (fst (connectExternalAWACSMode marshal c2)) =
     (case marshal ((newMessageWithClient c MessageExternalAWACSModePassword)
              \<lparr>ExternalAWACSModePassword := externalAWACSModePassword c\<rparr>) of
        Inl err \<Rightarrow> history c2
      | Inr b \<Rightarrow> history c2 @ [ConnWrite (b @ [newline]) (snd (connectExternalAWACSMode marshal c2) = None)])"
    by (simp add: connectExternalAWACSMode_history m2 p2)
  show ?thesis
  proof (cases "snd (sync marshal c1) = None")
    case False
    then show ?thesis
      using f s hs h1 by (auto split: sum.splits)
  next
    case True
    from sync_ok_marshal [OF True] obtain bs where bs: "marshal (newMessageWithClient c MessageSync) = Inr bs"
      by (auto simp: m1)
    show ?thesis
    proof (cases "snd (connectExternalAWACSMode marshal c2) = None")
      case False
      then show ?thesis
        using True f s hs hp h1 bs by (auto split: sum.splits)
    next
      case T2: True
      from connectExternalAWACSMode_ok_marshal [OF T2] obtain bp where
        bp: "marshal ((newMessageWithClient c MessageExternalAWACSModePassword)
              \<lparr>ExternalAWACSModePassword := externalAWACSModePassword c\<rparr>) = Inr bp"
        by (auto simp: m2 p2)
      show ?thesis
        using True T2 f s hs hp h1 bs bp by auto
    qed
  qed
qed

lemma Run_after_handshake:
  "Run marshal c sel =
     (case snd (handshake marshal c) of
        Some err \<Rightarrow> Some (close (fst (handshake marshal c)), Some err)
      | None \<Rightarrow> map_option (\<lambda>(c'', r). (close c'', r)) (receiveLoop marshal (fst (handshake marshal c)) sel))"
  by (simp add: Run_def split: prod.splits option.splits)

lemma exampleClient_handshake:
  "handshake exampleMarshal exampleClient =
     (exampleClient\<lparr>history := [GoReader, CloseReady, ConnWrite (''{2.1.0.2,self,}'' @ [newline]) True,
      ConnWrite (''{2.1.0.2,self,secret}'' @ [newline]) True]\<rparr>, None)"
  by (simp add: handshake_def sync_def connectExternalAWACSMode_def Send_def Write_def
      newMessageWithClient_def newMessage_def exampleMarshal_def exampleClient_def NewClient_def
      exampleConfig_def Let_def)

lemma brokenClient_handshake:
  "handshake exampleMarshal brokenClient =
     (brokenClient\<lparr>connection := [], history := [GoReader, CloseReady, ConnWrite (''{2.1.0.2,self,}'' @ [newline]) False]\<rparr>,
      Some (Wrap ''initial sync failed'' (Wrap ''sync failed'' (Wrap ''failed to write message'' (Err ''broken pipe'')))))"
  by (simp add: handshake_def sync_def connectExternalAWACSMode_def Send_def Write_def
      newMessageWithClient_def newMessage_def exampleMarshal_def brokenClient_def NewClient_def
      exampleConfig_def Let_def)

lemma exampleClient_messages:
  "exampleMarshal (newMessageWithClient exampleClient MessageSync) = Inr ''{2.1.0.2,self,}''"
  "exampleMarshal ((newMessageWithClient exampleClient MessageExternalAWACSModePassword)
      \<lparr>ExternalAWACSModePassword := externalAWACSModePassword exampleClient\<rparr>) = Inr ''{2.1.0.2,self,secret}''"
  by (simp_all add: exampleMarshal_def newMessageWithClient_def newMessage_def exampleClient_def
      NewClient_def exampleConfig_def)

text \<open>
  C4, as the code has it. On the connection dialed at construction, \<^verbatim>\<open>Run\<close> starts
  the reader and closes the ready channel first, and only then performs the handshake:
  everything it does to the outside after that and before its loop is a write on the
  connection. The handshake succeeds exactly when the sync message and then the password
  message were both serialised and written, each followed by a newline; when either fails,
  \<^verbatim>\<open>Run\<close> closes the connection and returns the error, and when both succeed it goes on
  to its receive loop.
\<close>

theorem Run_ready_then_handshake:
  "\<exists>ws. history (fst (handshake marshal c)) = history c @ [GoReader, CloseReady] @ ws \<and>
        (\<forall>a \<in> set ws. \<exists>b ok. a = ConnWrite b ok) \<and>
        (snd (handshake marshal c) = None \<longleftrightarrow>
           (\<exists>bs bp. marshal (newMessageWithClient c MessageSync) = Inr bs \<and>
              marshal ((newMessageWithClient c MessageExternalAWACSModePassword)
                \<lparr>ExternalAWACSModePassword := externalAWACSModePassword c\<rparr>) = Inr bp \<and>
              ws = [ConnWrite (bs @ [newline]) True, ConnWrite (bp @ [newline]) True])) \<and>
        (\<forall>err. snd (handshake marshal c) = Some err \<longrightarrow>
           Run marshal c sel = Some (close (fst (handshake marshal c)), Some err)) \<and>
        (snd (handshake marshal c) = None \<longrightarrow>
           Run marshal c sel =
             map_option (\<lambda>(c', r). (close c', r)) (receiveLoop marshal (fst (handshake marshal c)) sel))"
proof -
  have r1: "\<forall>err. snd (handshake marshal c) = Some err \<longrightarrow>
           Run marshal c sel = Some (close (fst (handshake marshal c)), Some err)"
    by (simp add: Run_after_handshake)
  have r2: "snd (handshake marshal c) = None \<longrightarrow>
           Run marshal c sel =
             map_option (\<lambda>(c', r). (close c', r)) (receiveLoop marshal (fst (handshake marshal c)) sel)"
    by (simp add: Run_after_handshake)
  from handshake_history [of marshal c] show ?thesis
    by (elim exE conjE, intro exI conjI) (assumption | rule r1 r2)+
qed

theorem Run_ready_then_handshake_witness:
  "snd (handshake exampleMarshal exampleClient) = None \<and>
   history (fst (handshake exampleMarshal exampleClient)) =
     [GoReader, CloseReady, ConnWrite (''{2.1.0.2,self,}'' @ [newline]) True,
      ConnWrite (''{2.1.0.2,self,secret}'' @ [newline]) True] \<and>
   Run exampleMarshal brokenClient [] =
     Some (close (fst (handshake exampleMarshal brokenClient)),
       Some (Wrap ''initial sync failed'' (Wrap ''sync failed''
         (Wrap ''failed to write message'' (Err ''broken pipe'')))))"
proof -
  have ok: "snd (handshake exampleMarshal exampleClient) = None"
    by (simp add: exampleClient_handshake)
  have ko: "snd (handshake exampleMarshal brokenClient) =
      Some (Wrap ''initial sync failed'' (Wrap ''sync failed''
         (Wrap ''failed to write message'' (Err ''broken pipe''))))"
    by (simp add: brokenClient_handshake)
  from Run_ready_then_handshake [of exampleMarshal exampleClient "[]"] ok
  have "history (fst (handshake exampleMarshal exampleClient)) =
     [GoReader, CloseReady, ConnWrite (''{2.1.0.2,self,}'' @ [newline]) True,
      ConnWrite (''{2.1.0.2,self,secret}'' @ [newline]) True]"
    by (auto simp: exampleClient_messages exampleClient_fields)
  moreover from Run_ready_then_handshake [of exampleMarshal brokenClient "[]"] ko
  have "Run exampleMarshal brokenClient [] =
     Some (close (fst (handshake exampleMarshal brokenClient)),
       Some (Wrap ''initial sync failed'' (Wrap ''sync failed''
         (Wrap ''failed to write message'' (Err ''broken pipe'')))))"
    by auto
  ultimately show ?thesis using ok by simp
qed

text \<open>
  The claim that the ready channel is closed only after the handshake fails on the code:
  on a connection whose first write fails, \<^verbatim>\<open>Run\<close> returns the error of the sync
  message, and the ready channel was closed before that write; on a healthy connection
  the ready channel is closed before both handshake writes.
\<close>

theorem Run_ready_counterexample:
  "map_option (\<lambda>(c', r). (history c', r)) (Run exampleMarshal brokenClient []) =
     Some ([GoReader, CloseReady, ConnWrite (''{2.1.0.2,self,}'' @ [newline]) False, ConnClose],
       Some (Wrap ''initial sync failed'' (Wrap ''sync failed''
         (Wrap ''failed to write message'' (Err ''broken pipe''))))) \<and>
   map_option (\<lambda>(c', r). (history c', r))
       (Run exampleMarshal exampleClient [ReadError (Err ''connection reset'')]) =
     Some ([GoReader, CloseReady, ConnWrite (''{2.1.0.2,self,}'' @ [newline]) True,
        ConnWrite (''{2.1.0.2,self,secret}'' @ [newline]) True, ConnClose],
       Some (Wrap ''data client error'' (Err ''connection reset'')))"
  by (simp add: Run_def brokenClient_handshake exampleClient_handshake close_def)

end
